theory Spec2Isabelle
  imports Main
begin

section \<open>The two-tier build cache of server/builder/cache.go\<close>

text \<open>
  The Go file keeps manifests in one file per key under a directory of the local disk,
  layer entries in an in-memory map, and both also in a storage bucket. Everything the
  functions touch besides their arguments is made explicit here: the disk, the bucket
  (with the list of requests sent to it), the heap cells behind the pointers that are
  returned, the log, and the goroutines that were started but have not run yet.

  The two mutexes of \<open>LocalCache\<close> are not modelled: every function of the file is
  run here from start to end without interleaving, where a lock has no effect.
\<close>

subsection \<open>Values\<close>

text \<open>
  Byte slices (\<open>[]byte\<close>, \<open>json.RawMessage\<close>) are lists of characters; the nil slice
  is the empty list.
\<close>

type_synonym bytes = string

text \<open>
  Modelled from the spec: the declaration of \<open>manifest.Entry\<close> (package
  \<open>server/manifest\<close>, which cache.go imports) is missing. The spec describes a layer
  entry as a small structured record of a content hash, a size and build-specific
  metadata. The zero value of the struct has every field zero.
\<close>

record Entry =
  entry_hash :: string
  entry_size :: int
  entry_meta :: string

definition zero_Entry :: Entry where
  "zero_Entry = \<lparr>entry_hash = [], entry_size = 0, entry_meta = []\<rparr>"

text \<open>Values of Go's \<open>error\<close> interface that the calls of this file can return.\<close>

datatype error =
    ENOENT | EACCES | EISDIR | ENOTDIR | EROFS | ENOSPC
  | ErrObjectNotExist | ErrUnavailable | ErrReader | ErrStream | ErrCopy | ErrClose
  | ErrJSON

text \<open>A pointer \<open>*manifest.Entry\<close> is nil or the address of a heap cell.\<close>

type_synonym ptr = "nat option"

subsection \<open>The local disk\<close>

text \<open>
  A path names nothing, a regular file with its content, a directory, or a node that the
  process may not open. Paths are opaque names. \<open>writable\<close> is false on a file system
  that is mounted read-only. \<open>space\<close> is the number of bytes a write can put down
  before the device reports that it is full, if there is such a bound.
\<close>

datatype fnode = RegularFile bytes | Directory | Denied

record filesystem =
  files :: "string \<rightharpoonup> fnode"
  writable :: bool
  space :: "nat option"

text \<open>An \<open>io.Reader\<close> read to its end gives all its bytes or an error.\<close>

datatype reader = Stream bytes | FailingStream error

definition os_Open :: "filesystem \<Rightarrow> string \<Rightarrow> error + reader" where
  "os_Open d path =
     (case files d path of
        None \<Rightarrow> Inl ENOENT
      | Some Denied \<Rightarrow> Inl EACCES
      | Some Directory \<Rightarrow> Inr (FailingStream EISDIR)
      | Some (RegularFile b) \<Rightarrow> Inr (Stream b))"

definition ioutil_ReadAll :: "reader \<Rightarrow> error + bytes" where
  "ioutil_ReadAll r = (case r of Stream b \<Rightarrow> Inr b | FailingStream e \<Rightarrow> Inl e)"

text \<open>
  \<open>ioutil.WriteFile\<close> opens the path for writing, creating the file or truncating
  it, and then writes the bytes. It returns the error or nil; the disk is returned beside
  it. A failure of the open leaves the disk as it was. A failure of the write leaves the
  file with the bytes that were written before it.
\<close>

definition ioutil_WriteFile ::
  "filesystem \<Rightarrow> string \<Rightarrow> bytes \<Rightarrow> error option \<times> filesystem" where
  "ioutil_WriteFile d path b =
     (if \<not> writable d then (Some EROFS, d)
      else case files d path of
             Some Directory \<Rightarrow> (Some EISDIR, d)
           | Some Denied \<Rightarrow> (Some EACCES, d)
           | _ \<Rightarrow>
               (case space d of
                  None \<Rightarrow> (None, d\<lparr>files := (files d)(path \<mapsto> RegularFile b)\<rparr>)
                | Some n \<Rightarrow>
                    (if length b \<le> n
                     then (None, d\<lparr>files := (files d)(path \<mapsto> RegularFile b)\<rparr>)
                     else (Some ENOSPC,
                           d\<lparr>files := (files d)(path \<mapsto> RegularFile (take n b))\<rparr>))))"

definition os_MkdirAll :: "filesystem \<Rightarrow> string \<Rightarrow> error + filesystem" where
  "os_MkdirAll d path =
     (case files d path of
        Some Directory \<Rightarrow> Inr d
      | Some _ \<Rightarrow> Inl ENOTDIR
      | None \<Rightarrow> (if writable d then Inr (d\<lparr>files := (files d)(path \<mapsto> Directory)\<rparr>)
                 else Inl EROFS))"

subsection \<open>The storage bucket\<close>

text \<open>
  An object of the bucket is healthy, or answers the attribute probe but gives no reader,
  or gives a reader that breaks while it is read. \<open>online\<close> is false when the bucket
  cannot be reached at all; \<open>wfault\<close> says where an upload fails, if it does. Every call
  on an object handle is recorded in \<open>requests\<close>.
\<close>

datatype bobject = Object bytes | NoReader | BadStream

datatype write_fault = WriteOK | CopyFails | CloseFails

datatype request =
    ReqAttrs string | ReqNewReader string | ReqRead string
  | ReqNewWriter string | ReqCopy string bytes | ReqClose string

record bucket =
  objects :: "string \<rightharpoonup> bobject"
  online :: bool
  wfault :: write_fault
  requests :: "request list"

definition attrs_result :: "bucket \<Rightarrow> string \<Rightarrow> error + unit" where
  "attrs_result b name =
     (if \<not> online b then Inl ErrUnavailable
      else case objects b name of None \<Rightarrow> Inl ErrObjectNotExist | Some _ \<Rightarrow> Inr ())"

definition newreader_result :: "bucket \<Rightarrow> string \<Rightarrow> error + reader" where
  "newreader_result b name =
     (if \<not> online b then Inl ErrUnavailable
      else case objects b name of
             None \<Rightarrow> Inl ErrObjectNotExist
           | Some NoReader \<Rightarrow> Inl ErrReader
           | Some BadStream \<Rightarrow> Inr (FailingStream ErrStream)
           | Some (Object b) \<Rightarrow> Inr (Stream b))"

definition copy_result :: "bucket \<Rightarrow> bytes \<Rightarrow> error + nat" where
  "copy_result b data =
     (if \<not> online b \<or> wfault b = CopyFails then Inl ErrCopy else Inr (length data))"

definition close_result :: "bucket \<Rightarrow> error + unit" where
  "close_result b = (if wfault b = CloseFails then Inl ErrClose else Inr ())"

definition sent :: "request \<Rightarrow> bucket \<Rightarrow> bucket" where
  "sent r b = b\<lparr>requests := requests b @ [r]\<rparr>"

subsection \<open>The cache and the rest of the process state\<close>

record LocalCache =
  mdir :: string
  lcache :: "string \<rightharpoonup> Entry"

datatype level = DebugLevel | InfoLevel | ErrorLevel

text \<open>
  A log line: severity, the error given to \<open>WithError\<close> if any, the field
  (\<open>manifest\<close> or \<open>layer\<close>) with the key, and the message. The \<open>size\<close> field of the
  one Info line of \<open>cacheManifest\<close> is left out.
\<close>

record log_line =
  lvl :: level
  cause :: "error option"
  field :: string
  subject :: string
  msg :: string

text \<open>A goroutine of a \<open>go\<close> statement, with its arguments already evaluated.\<close>

datatype task = GoLocalCacheManifest string bytes | GoLocalCacheLayer string Entry

text \<open>
  \<open>State\<close> holds the two fields of the Go struct that cache.go uses (\<open>Cache\<close>,
  \<open>Bucket\<close>) together with the disk, the heap cells, the log, the goroutines that
  were started and have not run yet, and the decisions of the Go scheduler: for each
  \<open>go\<close> statement to come, whether its goroutine runs before the next step of the
  function that started it.
\<close>

record State =
  Cache :: LocalCache
  Bucket :: bucket
  disk :: filesystem
  cells :: "Entry list"
  logged :: "log_line list"
  spawned :: "task list"
  schedule :: "bool list"

definition logf :: "level \<Rightarrow> error option \<Rightarrow> string \<Rightarrow> string \<Rightarrow> string \<Rightarrow> State \<Rightarrow> State" where
  "logf l e f k m s =
     s\<lparr>logged := logged s @ [\<lparr>lvl = l, cause = e, field = f, subject = k, msg = m\<rparr>]\<rparr>"

definition request_sent :: "request \<Rightarrow> State \<Rightarrow> State" where
  "request_sent r s = s\<lparr>Bucket := sent r (Bucket s)\<rparr>"

text \<open>\<open>&e\<close> for a local variable \<open>e\<close> that outlives the call: a new heap cell.\<close>

definition address_of :: "Entry \<Rightarrow> State \<Rightarrow> nat \<times> State" where
  "address_of e s = (length (cells s), s\<lparr>cells := cells s @ [e]\<rparr>)"

subsection \<open>Construction\<close>

text \<open>
  \<open>NewCache\<close>; \<open>tmp\<close> is what \<open>os.TempDir()\<close> returns. On failure Go returns the
  zero \<open>LocalCache\<close> beside the error; here the error alone.
\<close>

definition NewCache :: "string \<Rightarrow> filesystem \<Rightarrow> (error + LocalCache) \<times> filesystem" where
  "NewCache tmp d =
     (let path = tmp @ ''/nixery'' in
      case os_MkdirAll d path of
        Inl err \<Rightarrow> (Inl err, d)
      | Inr d' \<Rightarrow> (Inr \<lparr>mdir = path @ ''/'', lcache = Map.empty\<rparr>, d'))"

subsection \<open>The local cache\<close>

definition manifestFromLocalCache :: "State \<Rightarrow> string \<Rightarrow> (bytes \<times> bool) \<times> State" where
  "manifestFromLocalCache s key =
     (case os_Open (disk s) (mdir (Cache s) @ key) of
        Inl err \<Rightarrow>
          (([], False),
           logf DebugLevel (Some err) ''manifest'' key
             ''failed to read manifest from local cache'' s)
      | Inr f \<Rightarrow>
          (case ioutil_ReadAll f of
             Inl err \<Rightarrow>
               (([], False),
                logf ErrorLevel (Some err) ''manifest'' key
                  ''failed to read manifest from local cache'' s)
           | Inr m \<Rightarrow> ((m, True), s)))"

definition localCacheManifest :: "State \<Rightarrow> string \<Rightarrow> bytes \<Rightarrow> State" where
  "localCacheManifest s key m =
     (case ioutil_WriteFile (disk s) (mdir (Cache s) @ key) m of
        (Some err, d) \<Rightarrow>
          logf ErrorLevel (Some err) ''manifest'' key ''failed to locally cache manifest''
            (s\<lparr>disk := d\<rparr>)
      | (None, d) \<Rightarrow> s\<lparr>disk := d\<rparr>)"

text \<open>
  \<open>e, ok := c.lcache[key]\<close> copies the stored struct into the local \<open>e\<close> (the zero
  value when the key is missing); the function returns the address of that copy.
\<close>

definition layerFromLocalCache :: "State \<Rightarrow> string \<Rightarrow> (ptr \<times> bool) \<times> State" where
  "layerFromLocalCache s key =
     (let (e, ok) = (case lcache (Cache s) key of
                       None \<Rightarrow> (zero_Entry, False)
                     | Some v \<Rightarrow> (v, True));
          (a, s') = address_of e s
      in ((Some a, ok), s'))"

definition localCacheLayer :: "State \<Rightarrow> string \<Rightarrow> Entry \<Rightarrow> State" where
  "localCacheLayer s key e =
     s\<lparr>Cache := (Cache s)\<lparr>lcache := (lcache (Cache s))(key \<mapsto> e)\<rparr>\<rparr>"

subsection \<open>Goroutines\<close>

definition run_task :: "State \<Rightarrow> task \<Rightarrow> State" where
  "run_task s t =
     (case t of
        GoLocalCacheManifest key m \<Rightarrow> localCacheManifest s key m
      | GoLocalCacheLayer key e \<Rightarrow> localCacheLayer s key e)"

text \<open>
  A \<open>go\<close> statement. The goroutine runs concurrently with the function that
  started it. Either it runs at once, before that function's next step, or it is still
  waiting when the function returns. The goroutines of this file write the disk, the
  layer map and the log; after a \<open>go\<close> statement the functions of this file touch
  the bucket, write at most one log line and return. So a goroutine that runs between
  two later steps of its function leaves the same state as one that runs at once, and
  the two cases cover every interleaving of a function with the goroutine it starts.
\<close>

definition go :: "task \<Rightarrow> State \<Rightarrow> State" where
  "go t s =
     (case schedule s of
        [] \<Rightarrow> s\<lparr>spawned := spawned s @ [t]\<rparr>
      | now # rest \<Rightarrow>
          (if now then run_task (s\<lparr>schedule := rest\<rparr>) t
           else s\<lparr>schedule := rest, spawned := spawned s @ [t]\<rparr>))"


subsection \<open>The cache in front of the bucket\<close>

definition manifestFromCache :: "State \<Rightarrow> string \<Rightarrow> (bytes \<times> bool) \<times> State" where
  "manifestFromCache s key =
     (case manifestFromLocalCache s key of
        ((m, True), s1) \<Rightarrow> ((m, True), s1)
      | ((_, False), s1) \<Rightarrow>
          (let name = ''manifests/'' @ key;
               s2 = request_sent (ReqAttrs name) s1
           in case attrs_result (Bucket s1) name of
                Inl err \<Rightarrow> (([], False), s2)
              | Inr _ \<Rightarrow>
                  (let s3 = request_sent (ReqNewReader name) s2
                   in case newreader_result (Bucket s2) name of
                        Inl err \<Rightarrow>
                          (([], False),
                           logf ErrorLevel (Some err) ''manifest'' key
                             ''failed to retrieve manifest from bucket cache'' s3)
                      | Inr r \<Rightarrow>
                          (let s4 = request_sent (ReqRead name) s3
                           in case ioutil_ReadAll r of
                                Inl err \<Rightarrow>
                                  (([], False),
                                   logf ErrorLevel (Some err) ''manifest'' key
                                     ''failed to read cached manifest from bucket'' s4)
                              | Inr m \<Rightarrow>
                                  ((m, True),
                                   logf InfoLevel None ''manifest'' key
                                     ''retrieved manifest from GCS''
                                     (go (GoLocalCacheManifest key m) s4))))))"

definition cacheManifest :: "State \<Rightarrow> string \<Rightarrow> bytes \<Rightarrow> State" where
  "cacheManifest s key m =
     (let s1 = go (GoLocalCacheManifest key m) s;
          name = ''manifests/'' @ key;
          s2 = request_sent (ReqNewWriter name) s1;
          s3 = request_sent (ReqCopy name m) s2
      in case copy_result (Bucket s2) m of
           Inl err \<Rightarrow>
             logf ErrorLevel (Some err) ''manifest'' key ''failed to cache manifest to GCS'' s3
         | Inr n \<Rightarrow>
             (let s4 = request_sent (ReqClose name) s3
              in case close_result (Bucket s3) of
                   Inl err \<Rightarrow>
                     logf ErrorLevel (Some err) ''manifest'' key
                       ''failed to cache manifest to GCS'' s4
                 | Inr _ \<Rightarrow>
                     logf InfoLevel None ''manifest'' key ''cached manifest to GCS''
                       (s4\<lparr>Bucket := (Bucket s4)
                              \<lparr>objects := (objects (Bucket s4))(name \<mapsto> Object m)\<rparr>\<rparr>)))"

text \<open>
  \<open>json.Unmarshal\<close> and \<open>json.Marshal\<close> at type \<open>manifest.Entry\<close> are parameters
  (\<open>unmarshal\<close>, \<open>marshal\<close>), since they depend on the missing declaration of the
  struct and its field tags. Decoding gives an entry or an error. Encoding a struct
  whose fields are strings and integers gives bytes and never an error, so \<open>marshal\<close>
  is a function from entries to bytes.
  \<open>layerFromCache\<close> reads the object with \<open>io.Copy\<close> into a buffer, which is
  \<open>ioutil_ReadAll\<close> here as well. The deferred \<open>Close\<close> of a file or of a bucket
  reader, whose result the code ignores, is left out.
\<close>

definition layerFromCache ::
  "(bytes \<Rightarrow> error + Entry) \<Rightarrow> State \<Rightarrow> string \<Rightarrow> (ptr \<times> bool) \<times> State" where
  "layerFromCache unmarshal s key =
     (case layerFromLocalCache s key of
        ((entry, True), s1) \<Rightarrow> ((entry, True), s1)
      | ((_, False), s1) \<Rightarrow>
          (let name = ''builds/'' @ key;
               s2 = request_sent (ReqAttrs name) s1
           in case attrs_result (Bucket s1) name of
                Inl err \<Rightarrow> ((None, False), s2)
              | Inr _ \<Rightarrow>
                  (let s3 = request_sent (ReqNewReader name) s2
                   in case newreader_result (Bucket s2) name of
                        Inl err \<Rightarrow>
                          ((None, False),
                           logf ErrorLevel (Some err) ''layer'' key
                             ''failed to retrieve cached layer from GCS'' s3)
                      | Inr r \<Rightarrow>
                          (let s4 = request_sent (ReqRead name) s3
                           in case ioutil_ReadAll r of
                                Inl err \<Rightarrow>
                                  ((None, False),
                                   logf ErrorLevel (Some err) ''layer'' key
                                     ''failed to read cached layer from GCS'' s4)
                              | Inr jb \<Rightarrow>
                                  (case unmarshal jb of
                                     Inl err \<Rightarrow>
                                       ((None, False),
                                        logf ErrorLevel (Some err) ''layer'' key
                                          ''failed to unmarshal cached layer'' s4)
                                   | Inr entry \<Rightarrow>
                                       (let (a, s5) =
                                              address_of entry
                                                (go (GoLocalCacheLayer key entry) s4)
                                        in ((Some a, True), s5)))))))"

text \<open>\<open>j, _ := json.Marshal(&entry)\<close>: the error result, always nil, is dropped.\<close>

definition cacheLayer :: "(Entry \<Rightarrow> bytes) \<Rightarrow> State \<Rightarrow> string \<Rightarrow> Entry \<Rightarrow> State" where
  "cacheLayer marshal s key entry =
     (let s1 = localCacheLayer s key entry;
          name = ''builds/'' @ key;
          j = marshal entry;
          s2 = request_sent (ReqNewWriter name) s1;
          s3 = request_sent (ReqCopy name j) s2
      in case copy_result (Bucket s2) j of
           Inl err \<Rightarrow> logf ErrorLevel (Some err) ''layer'' key ''failed to cache layer'' s3
         | Inr n \<Rightarrow>
             (let s4 = request_sent (ReqClose name) s3
              in case close_result (Bucket s3) of
                   Inl err \<Rightarrow>
                     logf ErrorLevel (Some err) ''layer'' key ''failed to cache layer'' s4
                 | Inr _ \<Rightarrow>
                     s4\<lparr>Bucket := (Bucket s4)
                          \<lparr>objects := (objects (Bucket s4))(name \<mapsto> Object j)\<rparr>\<rparr>))"

subsection \<open>Reading and writing through a pointer\<close>

text \<open>\<open>*p\<close>: nothing for the nil pointer or an address that was never handed out.\<close>

definition deref :: "State \<Rightarrow> ptr \<Rightarrow> Entry option" where
  "deref s p =
     (case p of
        None \<Rightarrow> None
      | Some a \<Rightarrow> (if a < length (cells s) then Some (cells s ! a) else None))"

text \<open>\<open>*p = e\<close> for the pointer to cell \<open>a\<close>, as a caller holding \<open>p\<close> can do.\<close>

definition assign :: "State \<Rightarrow> nat \<Rightarrow> Entry \<Rightarrow> State" where
  "assign s a e = s\<lparr>cells := (cells s)[a := e]\<rparr>"

subsection \<open>Concrete states and codecs for the examples\<close>

definition disk0 :: filesystem where
  "disk0 =
     \<lparr>files = Map.empty(''/tmp/nixery'' \<mapsto> Directory), writable = True, space = None\<rparr>"

definition bucket0 :: bucket where
  "bucket0 = \<lparr>objects = Map.empty, online = True, wfault = WriteOK, requests = []\<rparr>"

definition state0 :: State where
  "state0 =
     \<lparr>Cache = \<lparr>mdir = ''/tmp/nixery/'', lcache = Map.empty\<rparr>,
      Bucket = bucket0, disk = disk0, cells = [], logged = [], spawned = [],
      schedule = []\<rparr>"

definition entry_L1 :: Entry where
  "entry_L1 = \<lparr>entry_hash = ''deadbeef'', entry_size = 42, entry_meta = []\<rparr>"

text \<open>A codec that keeps the hash only.\<close>

definition hash_marshal :: "Entry \<Rightarrow> bytes" where
  "hash_marshal e = entry_hash e"

definition hash_unmarshal :: "bytes \<Rightarrow> error + Entry" where
  "hash_unmarshal b =
     (if b = [] then Inl ErrJSON
      else Inr \<lparr>entry_hash = b, entry_size = 0, entry_meta = []\<rparr>)"

definition state1 :: State where
  "state1 =
     state0\<lparr>Cache := (Cache state0)\<lparr>lcache := Map.empty(''L1'' \<mapsto> entry_L1)\<rparr>,
            disk := disk0\<lparr>files := (files disk0)(''/tmp/nixery/abc'' \<mapsto> RegularFile ''{x:1}'')\<rparr>\<rparr>"

subsection \<open>What a read of the bucket would give\<close>

text \<open>
  The outcome of \<open>NewReader\<close> followed by reading the reader to its end, and of
  decoding what was read, as \<open>manifestFromCache\<close> and \<open>layerFromCache\<close> do after the
  attribute probe.
\<close>

definition durable_read :: "bucket \<Rightarrow> string \<Rightarrow> error + bytes" where
  "durable_read b name =
     (case newreader_result b name of Inl e \<Rightarrow> Inl e | Inr r \<Rightarrow> ioutil_ReadAll r)"

definition durable_decode ::
  "(bytes \<Rightarrow> error + Entry) \<Rightarrow> bucket \<Rightarrow> string \<Rightarrow> error + Entry" where
  "durable_decode unmarshal b name =
     (case durable_read b name of Inl e \<Rightarrow> Inl e | Inr jb \<Rightarrow> unmarshal jb)"

definition state2 :: State where
  "state2 =
     state0\<lparr>Bucket := bucket0\<lparr>objects :=
        Map.empty(''manifests/abc'' \<mapsto> BadStream, ''builds/L1'' \<mapsto> Object [])\<rparr>\<rparr>"

definition state3 :: State where
  "state3 =
     state0\<lparr>disk := disk0\<lparr>files := (files disk0)
        (''/tmp/nixery/denied'' \<mapsto> Denied, ''/tmp/nixery/dir'' \<mapsto> Directory)\<rparr>\<rparr>"

text \<open>The log line of \<open>manifestFromLocalCache\<close>, at either severity.\<close>

definition local_read_failed :: "level \<Rightarrow> error \<Rightarrow> string \<Rightarrow> log_line" where
  "local_read_failed l err key =
     \<lparr>lvl = l, cause = Some err, field = ''manifest'', subject = key,
      msg = ''failed to read manifest from local cache''\<rparr>"

subsection \<open>Two constructions in one process\<close>

definition disk_fresh :: filesystem where
  "disk_fresh = \<lparr>files = Map.empty, writable = True, space = None\<rparr>"

text \<open>The \<open>LocalCache\<close> value of Go's result pair: the zero struct beside an error.\<close>

definition cache_of :: "error + LocalCache \<Rightarrow> LocalCache" where
  "cache_of r = (case r of Inl err \<Rightarrow> \<lparr>mdir = [], lcache = Map.empty\<rparr> | Inr c \<Rightarrow> c)"

text \<open>A process state around a cache, with nothing else in it.\<close>

definition state_with :: "LocalCache \<Rightarrow> filesystem \<Rightarrow> State" where
  "state_with c d =
     \<lparr>Cache = c, Bucket = bucket0, disk = d, cells = [], logged = [], spawned = [],
      schedule = []\<rparr>"

text \<open>Two constructions one after the other, and a manifest stored through the first.\<close>

definition first_cache :: "(error + LocalCache) \<times> filesystem" where
  "first_cache = NewCache ''/tmp'' disk_fresh"

definition second_cache :: "(error + LocalCache) \<times> filesystem" where
  "second_cache = NewCache ''/tmp'' (snd first_cache)"

definition stored_by_first :: State where
  "stored_by_first =
     localCacheManifest (state_with (cache_of (fst first_cache)) (snd second_cache))
       ''abc'' ''{x:1}''"

subsection \<open>States for the round trip of a manifest\<close>





text \<open>A disk on which a write stops after three bytes.\<close>

definition state_small :: State where
  "state_small = state0\<lparr>disk := disk0\<lparr>space := Some 3\<rparr>\<rparr>"

subsection \<open>Failed writes\<close>

text \<open>A log line at error severity.\<close>

definition error_line :: "error \<Rightarrow> string \<Rightarrow> string \<Rightarrow> string \<Rightarrow> log_line" where
  "error_line err f key m =
     \<lparr>lvl = ErrorLevel, cause = Some err, field = f, subject = key, msg = m\<rparr>"

definition state_copyfails :: State where
  "state_copyfails = state0\<lparr>Bucket := bucket0\<lparr>wfault := CopyFails\<rparr>\<rparr>"

definition state_closefails :: State where
  "state_closefails = state0\<lparr>Bucket := bucket0\<lparr>wfault := CloseFails\<rparr>\<rparr>"

text \<open>A read-only disk with nothing on it.\<close>

definition disk_full :: filesystem where
  "disk_full = \<lparr>files = Map.empty, writable = False, space = None\<rparr>"

section \<open>Properties\<close>

subsection \<open>The in-memory layer map\<close>

lemma layerFromLocalCache_eq:
  "layerFromLocalCache s key =
     ((Some (length (cells s)), lcache (Cache s) key \<noteq> None),
      s\<lparr>cells := cells s @
             [case lcache (Cache s) key of None \<Rightarrow> zero_Entry | Some v \<Rightarrow> v]\<rparr>)"
  by (simp add: layerFromLocalCache_def address_of_def split: option.splits)

text \<open>
  C10. For a key that is not in the in-memory layer map, \<open>layerFromLocalCache\<close>
  returns found = false together with a pointer that is not nil and points to the
  zero-valued entry.
\<close>

theorem layerFromLocalCache_miss_zero:
  assumes "lcache (Cache s) key = None"
  shows "case layerFromLocalCache s key of
           ((p, found), s') \<Rightarrow> \<not> found \<and> p \<noteq> None \<and> deref s' p = Some zero_Entry"
  using assms by (simp add: layerFromLocalCache_eq deref_def)

theorem layerFromLocalCache_miss_zero_witness:
  "lcache (Cache state0) ''L1'' = None \<and>
   (case layerFromLocalCache state0 ''L1'' of
      ((p, found), s') \<Rightarrow> \<not> found \<and> p \<noteq> None \<and> deref s' p = Some zero_Entry)"
proof -
  have h: "lcache (Cache state0) ''L1'' = None"
    by (simp add: state0_def)
  from h layerFromLocalCache_miss_zero [OF h] show ?thesis
    by (rule conjI)
qed

text \<open>
  C9. The pointer returned by \<open>layerFromLocalCache\<close> is the address of a new cell
  holding a copy of the stored entry. Writing any entry \<open>e'\<close> through it changes that
  cell and nothing of the cache: the layer map is the same, and the next
  \<open>layerFromLocalCache\<close> for the key reports the same found flag and points, through
  another address, to the value the first call returned.
\<close>

theorem layerFromLocalCache_returns_copy:
  "case layerFromLocalCache s key of
     ((p, found), s1) \<Rightarrow>
       p = Some (length (cells s)) \<and>
       (let s2 = assign s1 (length (cells s)) e' in
          deref s2 p = Some e' \<and>
          Cache s2 = Cache s \<and>
          (case layerFromLocalCache s2 key of
             ((q, found'), s3) \<Rightarrow>
               found' = found \<and> q \<noteq> p \<and> deref s3 q = deref s1 p))"
  by (simp add: layerFromLocalCache_eq deref_def assign_def split: option.splits)

theorem layerFromLocalCache_returns_copy_witness:
  "case layerFromLocalCache (localCacheLayer state0 ''L1'' entry_L1) ''L1'' of
     ((p, found), s1) \<Rightarrow>
       p = Some 0 \<and> found \<and> deref s1 p = Some entry_L1 \<and>
       (let s2 = assign s1 0 zero_Entry in
          deref s2 p = Some zero_Entry \<and>
          lcache (Cache s2) ''L1'' = Some entry_L1 \<and>
          (case layerFromLocalCache s2 ''L1'' of
             ((q, found'), s3) \<Rightarrow> found' \<and> q = Some 1 \<and> deref s3 q = Some entry_L1))"
  using layerFromLocalCache_returns_copy
          [where s = "localCacheLayer state0 ''L1'' entry_L1" and key = "''L1''"
             and e' = zero_Entry]
  by (simp add: layerFromLocalCache_eq localCacheLayer_def state0_def deref_def assign_def)

subsection \<open>Selectors of the state after the small steps\<close>

lemma results_sent [simp]:
  "attrs_result (sent r b) name = attrs_result b name"
  "newreader_result (sent r b) name = newreader_result b name"
  "copy_result (sent r b) m = copy_result b m"
  "close_result (sent r b) = close_result b"
  by (simp_all add: attrs_result_def newreader_result_def copy_result_def
        close_result_def sent_def)

lemma logf_sel [simp]:
  "Cache (logf l e f k m s) = Cache s"
  "Bucket (logf l e f k m s) = Bucket s"
  "disk (logf l e f k m s) = disk s"
  "cells (logf l e f k m s) = cells s"
  "spawned (logf l e f k m s) = spawned s"
  "schedule (logf l e f k m s) = schedule s"
  "logged (logf l e f k m s) =
     logged s @ [\<lparr>lvl = l, cause = e, field = f, subject = k, msg = m\<rparr>]"
  by (simp_all add: logf_def)

lemma request_sent_sel [simp]:
  "Cache (request_sent r s) = Cache s"
  "Bucket (request_sent r s) = sent r (Bucket s)"
  "disk (request_sent r s) = disk s"
  "cells (request_sent r s) = cells s"
  "spawned (request_sent r s) = spawned s"
  "schedule (request_sent r s) = schedule s"
  "logged (request_sent r s) = logged s"
  by (simp_all add: request_sent_def)

lemma localCacheLayer_sel [simp]:
  "lcache (Cache (localCacheLayer s key e)) = (lcache (Cache s))(key \<mapsto> e)"
  "mdir (Cache (localCacheLayer s key e)) = mdir (Cache s)"
  "Bucket (localCacheLayer s key e) = Bucket s"
  "disk (localCacheLayer s key e) = disk s"
  "cells (localCacheLayer s key e) = cells s"
  "spawned (localCacheLayer s key e) = spawned s"
  "schedule (localCacheLayer s key e) = schedule s"
  "logged (localCacheLayer s key e) = logged s"
  by (simp_all add: localCacheLayer_def)

lemma sent_sel [simp]:
  "objects (sent r b) = objects b"
  "online (sent r b) = online b"
  "wfault (sent r b) = wfault b"
  "requests (sent r b) = requests b @ [r]"
  by (simp_all add: sent_def)

lemma localCacheManifest_sel [simp]:
  "Cache (localCacheManifest s key m) = Cache s"
  "Bucket (localCacheManifest s key m) = Bucket s"
  "cells (localCacheManifest s key m) = cells s"
  "spawned (localCacheManifest s key m) = spawned s"
  "schedule (localCacheManifest s key m) = schedule s"
  "disk (localCacheManifest s key m) =
     snd (ioutil_WriteFile (disk s) (mdir (Cache s) @ key) m)"
  by (simp_all add: localCacheManifest_def split: prod.splits option.splits)

lemma run_task_Bucket [simp]: "Bucket (run_task s t) = Bucket s"
  by (cases t) (simp_all add: run_task_def)

lemma go_Bucket [simp]: "Bucket (go t s) = Bucket s"
  by (simp add: go_def split: list.splits)

lemma go_manifest_Cache [simp]: "Cache (go (GoLocalCacheManifest key m) s) = Cache s"
  by (simp add: go_def run_task_def split: list.splits)

lemma manifestFromLocalCache_frame [simp]:
  "Cache (snd (manifestFromLocalCache s key)) = Cache s"
  "Bucket (snd (manifestFromLocalCache s key)) = Bucket s"
  "disk (snd (manifestFromLocalCache s key)) = disk s"
  "cells (snd (manifestFromLocalCache s key)) = cells s"
  "spawned (snd (manifestFromLocalCache s key)) = spawned s"
  "schedule (snd (manifestFromLocalCache s key)) = schedule s"
  by (simp_all add: manifestFromLocalCache_def split: sum.splits)

text \<open>A miss of the local manifest read returns the nil payload and leaves the bucket alone.\<close>

lemma manifestFromLocalCache_miss:
  "\<not> snd (fst (manifestFromLocalCache s key)) \<Longrightarrow>
   manifestFromLocalCache s key = (([], False), snd (manifestFromLocalCache s key))"
  by (auto simp add: manifestFromLocalCache_def split: sum.splits)

lemma manifestFromLocalCache_miss_state:
  assumes "\<not> snd (fst (manifestFromLocalCache s key))"
  obtains s1 where "manifestFromLocalCache s key = (([], False), s1)"
    and "Bucket s1 = Bucket s"
proof -
  from assms manifestFromLocalCache_miss
  have "manifestFromLocalCache s key = (([], False), snd (manifestFromLocalCache s key))"
    by blast
  moreover have "Bucket (snd (manifestFromLocalCache s key)) = Bucket s"
    by simp
  ultimately show ?thesis
    using that by blast
qed

subsection \<open>Hits in the local tier\<close>

lemma layerFromCache_hit:
  "lcache (Cache s) key = Some e \<Longrightarrow>
   layerFromCache unmarshal s key =
     ((Some (length (cells s)), True), s\<lparr>cells := cells s @ [e]\<rparr>)"
  by (simp add: layerFromCache_def layerFromLocalCache_eq)

lemma cacheLayer_lcache:
  "lcache (Cache (cacheLayer marshal s key e)) = (lcache (Cache s))(key \<mapsto> e)"
  by (simp add: cacheLayer_def Let_def split: sum.splits)

lemma manifestFromLocalCache_hit:
  "snd (fst (manifestFromLocalCache s key)) \<Longrightarrow>
   manifestFromLocalCache s key = ((fst (fst (manifestFromLocalCache s key)), True), s) \<and>
   files (disk s) (mdir (Cache s) @ key) =
     Some (RegularFile (fst (fst (manifestFromLocalCache s key))))"
  by (auto simp add: manifestFromLocalCache_def os_Open_def ioutil_ReadAll_def
        split: option.splits fnode.splits sum.splits)

text \<open>
  C5. After \<open>cacheLayer\<close> for key \<open>key\<close> and entry \<open>e\<close> (its local write is done
  when it returns), \<open>layerFromCache\<close> for \<open>key\<close> returns found = true and a pointer
  to an entry equal to \<open>e\<close> in every field, whatever the bucket did and whatever the
  JSON codec is.
\<close>

theorem cacheLayer_then_layerFromCache:
  "case layerFromCache unmarshal (cacheLayer marshal s key e) key of
     ((p, found), s') \<Rightarrow> found \<and> deref s' p = Some e"
  by (simp add: layerFromCache_hit [where e = e] cacheLayer_lcache deref_def)

theorem cacheLayer_then_layerFromCache_witness:
  "case layerFromCache hash_unmarshal (cacheLayer hash_marshal state0 ''L1'' entry_L1) ''L1'' of
     ((p, found), s') \<Rightarrow>
       found \<and> map_option entry_hash (deref s' p) = Some ''deadbeef'' \<and>
       map_option entry_size (deref s' p) = Some 42"
  using cacheLayer_then_layerFromCache
          [where unmarshal = hash_unmarshal and marshal = hash_marshal and s = state0
             and key = "''L1''" and e = entry_L1]
  by (auto simp add: entry_L1_def)

text \<open>
  C4. When the local manifest read reports a hit, \<open>manifestFromCache\<close> returns that
  payload (the content of the key's file) and the state is the one before the call: no
  request was sent to the bucket and neither tier changed. When the local layer read
  reports a hit, \<open>layerFromCache\<close> returns found = true with a pointer to the stored
  entry, and the cache, the disk, the bucket with its list of requests, the started
  goroutines and the log are as before the call.
\<close>

theorem local_hit_no_remote_contact:
  "(snd (fst (manifestFromLocalCache s key)) \<longrightarrow>
      manifestFromCache s key = (fst (manifestFromLocalCache s key), s) \<and>
      files (disk s) (mdir (Cache s) @ key) =
        Some (RegularFile (fst (fst (manifestFromCache s key))))) \<and>
   (snd (fst (layerFromLocalCache s key)) \<longrightarrow>
      (case layerFromCache unmarshal s key of
         ((p, found), s') \<Rightarrow>
           found \<and> deref s' p = lcache (Cache s) key \<and>
           Cache s' = Cache s \<and> disk s' = disk s \<and> Bucket s' = Bucket s \<and>
           spawned s' = spawned s \<and> logged s' = logged s))"
proof (intro conjI impI)
  assume h: "snd (fst (manifestFromLocalCache s key))"
  from manifestFromLocalCache_hit [OF h]
  obtain m where m: "manifestFromLocalCache s key = ((m, True), s)"
    and f: "files (disk s) (mdir (Cache s) @ key) = Some (RegularFile m)"
    by metis
  show "manifestFromCache s key = (fst (manifestFromLocalCache s key), s)"
    by (simp add: manifestFromCache_def m)
  then show "files (disk s) (mdir (Cache s) @ key) =
      Some (RegularFile (fst (fst (manifestFromCache s key))))"
    by (simp add: m f)
next
  assume "snd (fst (layerFromLocalCache s key))"
  then obtain e where e: "lcache (Cache s) key = Some e"
    by (auto simp add: layerFromLocalCache_eq)
  show "case layerFromCache unmarshal s key of
         ((p, found), s') \<Rightarrow>
           found \<and> deref s' p = lcache (Cache s) key \<and>
           Cache s' = Cache s \<and> disk s' = disk s \<and> Bucket s' = Bucket s \<and>
           spawned s' = spawned s \<and> logged s' = logged s"
    by (simp add: layerFromCache_hit [OF e] e deref_def)
qed

theorem local_hit_no_remote_contact_witness:
  "snd (fst (manifestFromLocalCache state1 ''abc'')) \<and>
   manifestFromCache state1 ''abc'' = ((''{x:1}'', True), state1) \<and>
   snd (fst (layerFromLocalCache state1 ''L1'')) \<and>
   (case layerFromCache hash_unmarshal state1 ''L1'' of
      ((p, found), s') \<Rightarrow>
        found \<and> deref s' p = Some entry_L1 \<and> Bucket s' = bucket0 \<and>
        requests (Bucket s') = [])"
proof -
  have m: "manifestFromLocalCache state1 ''abc'' = ((''{x:1}'', True), state1)"
    by (simp add: manifestFromLocalCache_def os_Open_def ioutil_ReadAll_def state1_def
          state0_def disk0_def)
  have l: "snd (fst (layerFromLocalCache state1 ''L1''))"
    by (simp add: layerFromLocalCache_eq state1_def state0_def)
  have c: "lcache (Cache state1) ''L1'' = Some entry_L1" "Bucket state1 = bucket0"
    by (simp_all add: state1_def state0_def)
  from local_hit_no_remote_contact
         [where s = state1 and key = "''abc''" and unmarshal = hash_unmarshal]
  have a: "manifestFromCache state1 ''abc'' = ((''{x:1}'', True), state1)"
    by (simp add: m)
  from local_hit_no_remote_contact
         [where s = state1 and key = "''L1''" and unmarshal = hash_unmarshal] l
  have b: "case layerFromCache hash_unmarshal state1 ''L1'' of
      ((p, found), s') \<Rightarrow>
        found \<and> deref s' p = Some entry_L1 \<and> Bucket s' = bucket0 \<and>
        requests (Bucket s') = []"
    by (auto simp add: c bucket0_def)
  from m a l b show ?thesis by simp
qed

subsection \<open>Failures after a successful probe\<close>

text \<open>
  C3. A \<open>manifestFromCache\<close> whose local read misses and whose attribute probe
  succeeds, but for which opening or reading the object fails, returns the nil payload
  with found = false; the cache and the disk are as before the call and no goroutine was
  started, so nothing is written to the local tier later either. The same holds for
  \<open>layerFromCache\<close>, which returns the nil pointer, also when the bytes read do not
  decode.
\<close>

theorem durable_read_failure_is_miss:
  "(\<not> snd (fst (manifestFromLocalCache s key)) \<and>
    attrs_result (Bucket s) (''manifests/'' @ key) = Inr () \<and>
    isl (durable_read (Bucket s) (''manifests/'' @ key)) \<longrightarrow>
      (case manifestFromCache s key of
         ((m, found), s') \<Rightarrow>
           \<not> found \<and> m = [] \<and> Cache s' = Cache s \<and> disk s' = disk s \<and>
           spawned s' = spawned s)) \<and>
   (\<not> snd (fst (layerFromLocalCache s key)) \<and>
    attrs_result (Bucket s) (''builds/'' @ key) = Inr () \<and>
    isl (durable_decode unmarshal (Bucket s) (''builds/'' @ key)) \<longrightarrow>
      (case layerFromCache unmarshal s key of
         ((p, found), s') \<Rightarrow>
           \<not> found \<and> p = None \<and> Cache s' = Cache s \<and> disk s' = disk s \<and>
           spawned s' = spawned s))"
proof (intro conjI impI)
  assume a: "\<not> snd (fst (manifestFromLocalCache s key)) \<and>
    attrs_result (Bucket s) (''manifests/'' @ key) = Inr () \<and>
    isl (durable_read (Bucket s) (''manifests/'' @ key))"
  from a manifestFromLocalCache_miss
  have m: "manifestFromLocalCache s key = (([], False), snd (manifestFromLocalCache s key))"
    by blast
  show "case manifestFromCache s key of
         ((m, found), s') \<Rightarrow>
           \<not> found \<and> m = [] \<and> Cache s' = Cache s \<and> disk s' = disk s \<and>
           spawned s' = spawned s"
    using a
    apply (subst manifestFromCache_def)
    apply (subst m)
    apply (auto simp add: Let_def durable_read_def split: sum.splits)
    done
next
  assume a: "\<not> snd (fst (layerFromLocalCache s key)) \<and>
    attrs_result (Bucket s) (''builds/'' @ key) = Inr () \<and>
    isl (durable_decode unmarshal (Bucket s) (''builds/'' @ key))"
  then have n: "lcache (Cache s) key = None"
    by (simp add: layerFromLocalCache_eq)
  show "case layerFromCache unmarshal s key of
         ((p, found), s') \<Rightarrow>
           \<not> found \<and> p = None \<and> Cache s' = Cache s \<and> disk s' = disk s \<and>
           spawned s' = spawned s"
    using a
    by (auto simp add: layerFromCache_def layerFromLocalCache_eq n Let_def
          durable_decode_def durable_read_def split: sum.splits)
qed


theorem durable_read_failure_is_miss_witness:
  "\<not> snd (fst (manifestFromLocalCache state2 ''abc'')) \<and>
   attrs_result (Bucket state2) ''manifests/abc'' = Inr () \<and>
   durable_read (Bucket state2) ''manifests/abc'' = Inl ErrStream \<and>
   (case manifestFromCache state2 ''abc'' of
      ((m, found), s') \<Rightarrow>
        \<not> found \<and> m = [] \<and> Cache s' = Cache state2 \<and> disk s' = disk state2 \<and>
        spawned s' = []) \<and>
   \<not> snd (fst (layerFromLocalCache state2 ''L1'')) \<and>
   attrs_result (Bucket state2) ''builds/L1'' = Inr () \<and>
   durable_decode hash_unmarshal (Bucket state2) ''builds/L1'' = Inl ErrJSON \<and>
   (case layerFromCache hash_unmarshal state2 ''L1'' of
      ((p, found), s') \<Rightarrow>
        \<not> found \<and> p = None \<and> Cache s' = Cache state2 \<and> disk s' = disk state2 \<and>
        spawned s' = [])"
proof -
  have sel: "Bucket state2 = bucket0\<lparr>objects :=
        Map.empty(''manifests/abc'' \<mapsto> BadStream, ''builds/L1'' \<mapsto> Object [])\<rparr>"
    "disk state2 = disk0" "Cache state2 = Cache state0" "spawned state2 = []"
    by (simp_all add: state2_def state0_def)
  have h1: "\<not> snd (fst (manifestFromLocalCache state2 ''abc''))"
    by (simp add: manifestFromLocalCache_def os_Open_def sel state0_def disk0_def)
  have h2: "attrs_result (Bucket state2) ''manifests/abc'' = Inr ()"
    by (simp add: attrs_result_def sel bucket0_def)
  have h3: "durable_read (Bucket state2) ''manifests/abc'' = Inl ErrStream"
    by (simp add: durable_read_def newreader_result_def ioutil_ReadAll_def sel bucket0_def)
  have h4: "\<not> snd (fst (layerFromLocalCache state2 ''L1''))"
    by (simp add: layerFromLocalCache_eq sel state0_def)
  have h5: "attrs_result (Bucket state2) ''builds/L1'' = Inr ()"
    by (simp add: attrs_result_def sel bucket0_def)
  have h6: "durable_decode hash_unmarshal (Bucket state2) ''builds/L1'' = Inl ErrJSON"
    by (simp add: durable_decode_def durable_read_def newreader_result_def ioutil_ReadAll_def
          hash_unmarshal_def sel bucket0_def)
  from durable_read_failure_is_miss
         [where s = state2 and key = "''abc''" and unmarshal = hash_unmarshal] h1 h2 h3
  have a: "case manifestFromCache state2 ''abc'' of
      ((m, found), s') \<Rightarrow>
        \<not> found \<and> m = [] \<and> Cache s' = Cache state2 \<and> disk s' = disk state2 \<and>
        spawned s' = []"
    by (simp add: sel(4))
  from durable_read_failure_is_miss
         [where s = state2 and key = "''L1''" and unmarshal = hash_unmarshal] h4 h5 h6
  have b: "case layerFromCache hash_unmarshal state2 ''L1'' of
      ((p, found), s') \<Rightarrow>
        \<not> found \<and> p = None \<and> Cache s' = Cache state2 \<and> disk s' = disk state2 \<and>
        spawned s' = []"
    by (simp add: sel(4))
  from h1 h2 h3 a h4 h5 h6 b show ?thesis by blast
qed

subsection \<open>Reading a manifest from the local disk\<close>

text \<open>
  C6, as stated, fails: a file that exists but cannot be opened (permission denied) is
  a read failure other than absence, and it is logged at debug severity, not at error
  severity.
\<close>

theorem manifestFromLocalCache_denied_logs_debug:
  "files (disk state3) (mdir (Cache state3) @ ''denied'') = Some Denied \<and>
   os_Open (disk state3) (mdir (Cache state3) @ ''denied'') = Inl EACCES \<and>
   fst (manifestFromLocalCache state3 ''denied'') = ([], False) \<and>
   map lvl (logged (snd (manifestFromLocalCache state3 ''denied''))) = [DebugLevel]"
  by (simp add: manifestFromLocalCache_def os_Open_def state3_def state0_def disk0_def logf_def)

text \<open>
  C6, amended. \<open>manifestFromLocalCache\<close> returns the nil payload with found = false
  on every failure, so a caller cannot tell them apart. Every failure to open the file,
  absence or any other, is logged at debug severity; a failure while reading the opened
  file is logged at error severity. Nothing but the log changes. When both steps succeed
  the content is returned with found = true and the state is unchanged.
\<close>

theorem manifestFromLocalCache_outcomes:
  "case manifestFromLocalCache s key of
     ((m, found), s') \<Rightarrow>
       (\<forall>err. os_Open (disk s) (mdir (Cache s) @ key) = Inl err \<longrightarrow>
          \<not> found \<and> m = [] \<and>
          s' = s\<lparr>logged := logged s @ [local_read_failed DebugLevel err key]\<rparr>) \<and>
       (\<forall>f err. os_Open (disk s) (mdir (Cache s) @ key) = Inr f \<and> ioutil_ReadAll f = Inl err \<longrightarrow>
          \<not> found \<and> m = [] \<and>
          s' = s\<lparr>logged := logged s @ [local_read_failed ErrorLevel err key]\<rparr>) \<and>
       (\<forall>f b. os_Open (disk s) (mdir (Cache s) @ key) = Inr f \<and> ioutil_ReadAll f = Inr b \<longrightarrow>
          found \<and> m = b \<and> s' = s)"
  by (auto simp add: manifestFromLocalCache_def logf_def local_read_failed_def split: sum.splits)

theorem manifestFromLocalCache_outcomes_witness:
  "os_Open (disk state3) (mdir (Cache state3) @ ''abc'') = Inl ENOENT \<and>
   manifestFromLocalCache state3 ''abc'' =
     (([], False), state3\<lparr>logged := [local_read_failed DebugLevel ENOENT ''abc'']\<rparr>) \<and>
   os_Open (disk state3) (mdir (Cache state3) @ ''denied'') = Inl EACCES \<and>
   manifestFromLocalCache state3 ''denied'' =
     (([], False), state3\<lparr>logged := [local_read_failed DebugLevel EACCES ''denied'']\<rparr>) \<and>
   os_Open (disk state3) (mdir (Cache state3) @ ''dir'') = Inr (FailingStream EISDIR) \<and>
   ioutil_ReadAll (FailingStream EISDIR) = Inl EISDIR \<and>
   manifestFromLocalCache state3 ''dir'' =
     (([], False), state3\<lparr>logged := [local_read_failed ErrorLevel EISDIR ''dir'']\<rparr>) \<and>
   os_Open (disk state1) (mdir (Cache state1) @ ''abc'') = Inr (Stream ''{x:1}'') \<and>
   ioutil_ReadAll (Stream ''{x:1}'') = Inr ''{x:1}'' \<and>
   manifestFromLocalCache state1 ''abc'' = ((''{x:1}'', True), state1)"
proof -
  have sel: "disk state3 = disk0\<lparr>files := (files disk0)
        (''/tmp/nixery/denied'' \<mapsto> Denied, ''/tmp/nixery/dir'' \<mapsto> Directory)\<rparr>"
    "mdir (Cache state3) = ''/tmp/nixery/''" "logged state3 = []"
    "disk state1 = disk0\<lparr>files := (files disk0)(''/tmp/nixery/abc'' \<mapsto> RegularFile ''{x:1}'')\<rparr>"
    "mdir (Cache state1) = ''/tmp/nixery/''"
    by (simp_all add: state3_def state1_def state0_def)
  have o1: "os_Open (disk state3) (mdir (Cache state3) @ ''abc'') = Inl ENOENT"
    by (simp add: os_Open_def sel disk0_def)
  have o2: "os_Open (disk state3) (mdir (Cache state3) @ ''denied'') = Inl EACCES"
    by (simp add: os_Open_def sel disk0_def)
  have o3: "os_Open (disk state3) (mdir (Cache state3) @ ''dir'') = Inr (FailingStream EISDIR)"
    by (simp add: os_Open_def sel disk0_def)
  have o4: "os_Open (disk state1) (mdir (Cache state1) @ ''abc'') = Inr (Stream ''{x:1}'')"
    by (simp add: os_Open_def sel disk0_def)
  have r3: "ioutil_ReadAll (FailingStream EISDIR) = Inl EISDIR"
    and r4: "ioutil_ReadAll (Stream ''{x:1}'') = Inr ''{x:1}''"
    by (simp_all add: ioutil_ReadAll_def)
  have a1: "manifestFromLocalCache state3 ''abc'' =
     (([], False), state3\<lparr>logged := [local_read_failed DebugLevel ENOENT ''abc'']\<rparr>)"
    using manifestFromLocalCache_outcomes [where s = state3 and key = "''abc''"] o1
    by (cases "manifestFromLocalCache state3 ''abc''") (auto simp add: sel(3))
  have a2: "manifestFromLocalCache state3 ''denied'' =
     (([], False), state3\<lparr>logged := [local_read_failed DebugLevel EACCES ''denied'']\<rparr>)"
    using manifestFromLocalCache_outcomes [where s = state3 and key = "''denied''"] o2
    by (cases "manifestFromLocalCache state3 ''denied''") (auto simp add: sel(3))
  have a3: "manifestFromLocalCache state3 ''dir'' =
     (([], False), state3\<lparr>logged := [local_read_failed ErrorLevel EISDIR ''dir'']\<rparr>)"
    using manifestFromLocalCache_outcomes [where s = state3 and key = "''dir''"] o3 r3
    by (cases "manifestFromLocalCache state3 ''dir''") (auto simp add: sel(3))
  have a4: "manifestFromLocalCache state1 ''abc'' = ((''{x:1}'', True), state1)"
    using manifestFromLocalCache_outcomes [where s = state1 and key = "''abc''"] o4 r4
    by (cases "manifestFromLocalCache state1 ''abc''") auto
  from o1 a1 o2 a2 o3 r3 a3 o4 r4 a4 show ?thesis by blast
qed

subsection \<open>Construction\<close>

text \<open>
  C8, as stated, fails: two caches constructed one after the other both succeed and have
  the same manifest directory, and a manifest stored through the first is returned by a
  local read through the second.
\<close>

theorem NewCache_twice_shares_directory:
  "\<not> isl (fst first_cache) \<and> \<not> isl (fst second_cache) \<and>
   mdir (cache_of (fst first_cache)) = ''/tmp/nixery/'' \<and>
   mdir (cache_of (fst second_cache)) = ''/tmp/nixery/'' \<and>
   fst (manifestFromLocalCache
          (state_with (cache_of (fst second_cache)) (disk stored_by_first)) ''abc'') =
     (''{x:1}'', True)"
  by (simp add: first_cache_def second_cache_def stored_by_first_def NewCache_def
        os_MkdirAll_def disk_fresh_def cache_of_def state_with_def localCacheManifest_def
        ioutil_WriteFile_def manifestFromLocalCache_def os_Open_def ioutil_ReadAll_def)

text \<open>
  C8, amended. Every successful \<open>NewCache\<close> has made sure, before it returns, that
  the directory \<open>nixery\<close> under the temporary directory exists, changing nothing else
  on the disk; the cache's manifest directory is that path, and its layer map is new and
  empty. The path depends on the temporary directory alone, so caches constructed under
  the same temporary directory share their manifest directory.
\<close>

theorem NewCache_directory:
  "(NewCache tmp d = (Inr c, d') \<longrightarrow>
      files d' (tmp @ ''/nixery'') = Some Directory \<and>
      mdir c = tmp @ ''/nixery/'' \<and> lcache c = Map.empty \<and>
      (\<forall>path. path \<noteq> tmp @ ''/nixery'' \<longrightarrow> files d' path = files d path) \<and>
      writable d' = writable d) \<and>
   (NewCache tmp d = (Inr c, d') \<and> NewCache tmp e = (Inr c2, e') \<longrightarrow> mdir c2 = mdir c)"
  by (auto simp add: NewCache_def os_MkdirAll_def Let_def
        split: sum.splits option.splits fnode.splits if_splits)

theorem NewCache_directory_witness:
  "NewCache ''/tmp'' disk_fresh =
     (Inr \<lparr>mdir = ''/tmp/nixery/'', lcache = Map.empty\<rparr>, disk0) \<and>
   NewCache ''/tmp'' disk0 = (Inr \<lparr>mdir = ''/tmp/nixery/'', lcache = Map.empty\<rparr>, disk0) \<and>
   files disk0 ''/tmp/nixery'' = Some Directory"
proof -
  have a: "NewCache ''/tmp'' disk_fresh =
     (Inr \<lparr>mdir = ''/tmp/nixery/'', lcache = Map.empty\<rparr>, disk0)"
    by (simp add: NewCache_def os_MkdirAll_def disk_fresh_def disk0_def)
  have b: "NewCache ''/tmp'' disk0 = (Inr \<lparr>mdir = ''/tmp/nixery/'', lcache = Map.empty\<rparr>, disk0)"
    by (simp add: NewCache_def os_MkdirAll_def disk0_def)
  from NewCache_directory [where tmp = "''/tmp''" and d = disk_fresh and d' = disk0 and e = disk0
             and e' = disk0
             and c = "\<lparr>mdir = ''/tmp/nixery/'', lcache = Map.empty\<rparr>"
             and ?c2.0 = "\<lparr>mdir = ''/tmp/nixery/'', lcache = Map.empty\<rparr>"] a b
  have "files disk0 ''/tmp/nixery'' = Some Directory"
    by simp
  with a b show ?thesis by simp
qed

subsection \<open>Storing a manifest and fetching it again\<close>
















subsection \<open>Storing a layer entry\<close>

lemma cacheLayer_frame:
  "disk (cacheLayer marshal s key e) = disk s"
  "spawned (cacheLayer marshal s key e) = spawned s"
  "cells (cacheLayer marshal s key e) = cells s"
  by (simp_all add: cacheLayer_def Let_def split: sum.splits)

text \<open>
  C7. \<open>cacheLayer\<close> returns in every state, with the entry in the in-memory map. It
  encodes the entry and, before it returns, sends the bytes to the bucket under
  \<open>builds/\<close> followed by the key. The encoding gives no error; a failure of the copy
  or of the close is logged at error severity and leaves the bucket's objects as they
  were. When both succeed the object holds the bytes and nothing is logged.
\<close>

theorem cacheLayer_outcomes:
  "(let s' = cacheLayer marshal s key entry;
        j = marshal entry;
        name = ''builds/'' @ key
    in lcache (Cache s') key = Some entry \<and>
       requests (Bucket s') =
         requests (Bucket s) @ [ReqNewWriter name, ReqCopy name j] @
           (if isl (copy_result (Bucket s) j) then [] else [ReqClose name]) \<and>
       (\<forall>err. copy_result (Bucket s) j = Inl err \<longrightarrow>
          objects (Bucket s') = objects (Bucket s) \<and>
          logged s' = logged s @ [error_line err ''layer'' key ''failed to cache layer'']) \<and>
       (\<forall>err. \<not> isl (copy_result (Bucket s) j) \<and> close_result (Bucket s) = Inl err \<longrightarrow>
          objects (Bucket s') = objects (Bucket s) \<and>
          logged s' = logged s @ [error_line err ''layer'' key ''failed to cache layer'']) \<and>
       (\<not> isl (copy_result (Bucket s) j) \<and> \<not> isl (close_result (Bucket s)) \<longrightarrow>
          objects (Bucket s') = (objects (Bucket s))(name \<mapsto> Object j) \<and>
          logged s' = logged s))"
  by (auto simp add: cacheLayer_def Let_def error_line_def split: sum.splits)

theorem cacheLayer_outcomes_witness:
  "copy_result (Bucket state_copyfails) ''deadbeef'' = Inl ErrCopy \<and>
   logged (cacheLayer hash_marshal state_copyfails ''L1'' entry_L1) =
     [error_line ErrCopy ''layer'' ''L1'' ''failed to cache layer''] \<and>
   objects (Bucket (cacheLayer hash_marshal state_copyfails ''L1'' entry_L1)) = Map.empty \<and>
   \<not> isl (copy_result (Bucket state_closefails) ''deadbeef'') \<and>
   close_result (Bucket state_closefails) = Inl ErrClose \<and>
   logged (cacheLayer hash_marshal state_closefails ''L1'' entry_L1) =
     [error_line ErrClose ''layer'' ''L1'' ''failed to cache layer''] \<and>
   objects (Bucket (cacheLayer hash_marshal state_closefails ''L1'' entry_L1)) = Map.empty \<and>
   \<not> isl (copy_result (Bucket state0) ''deadbeef'') \<and>
   \<not> isl (close_result (Bucket state0)) \<and>
   logged (cacheLayer hash_marshal state0 ''L1'' entry_L1) = [] \<and>
   objects (Bucket (cacheLayer hash_marshal state0 ''L1'' entry_L1)) ''builds/L1'' =
     Some (Object ''deadbeef'') \<and>
   requests (Bucket (cacheLayer hash_marshal state0 ''L1'' entry_L1)) =
     [ReqNewWriter ''builds/L1'', ReqCopy ''builds/L1'' ''deadbeef'', ReqClose ''builds/L1''] \<and>
   lcache (Cache (cacheLayer hash_marshal state0 ''L1'' entry_L1)) ''L1'' = Some entry_L1"
proof -
  have j: "hash_marshal entry_L1 = ''deadbeef''"
    by (simp add: hash_marshal_def entry_L1_def)
  have sel: "Bucket state_copyfails = bucket0\<lparr>wfault := CopyFails\<rparr>"
    "Bucket state_closefails = bucket0\<lparr>wfault := CloseFails\<rparr>"
    "Bucket state0 = bucket0"
    "logged state_copyfails = []" "logged state_closefails = []" "logged state0 = []"
    by (simp_all add: state_copyfails_def state_closefails_def state0_def)
  have h1: "copy_result (Bucket state_copyfails) ''deadbeef'' = Inl ErrCopy"
    and h2: "\<not> isl (copy_result (Bucket state_closefails) ''deadbeef'')"
    and h3: "close_result (Bucket state_closefails) = Inl ErrClose"
    and h4: "\<not> isl (copy_result (Bucket state0) ''deadbeef'')"
    and h5: "\<not> isl (close_result (Bucket state0))"
    by (simp_all add: sel copy_result_def close_result_def bucket0_def)
  from cacheLayer_outcomes [where marshal = hash_marshal and s = state_copyfails and key = "''L1''"
             and entry = entry_L1] h1
  have a: "logged (cacheLayer hash_marshal state_copyfails ''L1'' entry_L1) =
       [error_line ErrCopy ''layer'' ''L1'' ''failed to cache layer'']"
    "objects (Bucket (cacheLayer hash_marshal state_copyfails ''L1'' entry_L1)) = Map.empty"
    by (simp_all add: Let_def j sel bucket0_def)
  from cacheLayer_outcomes [where marshal = hash_marshal and s = state_closefails and key = "''L1''"
             and entry = entry_L1] h2 h3
  have b: "logged (cacheLayer hash_marshal state_closefails ''L1'' entry_L1) =
       [error_line ErrClose ''layer'' ''L1'' ''failed to cache layer'']"
    "objects (Bucket (cacheLayer hash_marshal state_closefails ''L1'' entry_L1)) = Map.empty"
    by (simp_all add: Let_def j sel bucket0_def)
  from cacheLayer_outcomes [where marshal = hash_marshal and s = state0 and key = "''L1''"
             and entry = entry_L1] h4 h5
  have c: "logged (cacheLayer hash_marshal state0 ''L1'' entry_L1) = []"
    "objects (Bucket (cacheLayer hash_marshal state0 ''L1'' entry_L1)) ''builds/L1'' =
       Some (Object ''deadbeef'')"
    "requests (Bucket (cacheLayer hash_marshal state0 ''L1'' entry_L1)) =
       [ReqNewWriter ''builds/L1'', ReqCopy ''builds/L1'' ''deadbeef'', ReqClose ''builds/L1'']"
    "lcache (Cache (cacheLayer hash_marshal state0 ''L1'' entry_L1)) ''L1'' = Some entry_L1"
    by (simp_all add: Let_def j sel bucket0_def)
  from h1 a h2 h3 b h4 h5 c show ?thesis by blast
qed

subsection \<open>Errors stay inside the cache\<close>

lemma local_failure_is_miss:
  "isl (os_Open (disk s) (mdir (Cache s) @ key)) \<or>
   (\<exists>f. os_Open (disk s) (mdir (Cache s) @ key) = Inr f \<and> isl (ioutil_ReadAll f)) \<Longrightarrow>
   fst (manifestFromLocalCache s key) = ([], False)"
  by (auto simp add: manifestFromLocalCache_def split: sum.splits)

lemma manifest_durable_failure_is_miss:
  assumes "\<not> snd (fst (manifestFromLocalCache s key))"
    and "isl (attrs_result (Bucket s) (''manifests/'' @ key)) \<or>
         isl (durable_read (Bucket s) (''manifests/'' @ key))"
  shows "fst (manifestFromCache s key) = ([], False)"
proof -
  from assms(1) obtain s1 where m: "manifestFromLocalCache s key = (([], False), s1)"
    and b: "Bucket s1 = Bucket s"
    by (rule manifestFromLocalCache_miss_state)
  from assms(2) show ?thesis
    by (auto simp add: manifestFromCache_def m b Let_def durable_read_def split: sum.splits)
qed

lemma layer_durable_failure_is_miss:
  assumes "\<not> snd (fst (layerFromLocalCache s key))"
    and "isl (attrs_result (Bucket s) (''builds/'' @ key)) \<or>
         isl (durable_decode unmarshal (Bucket s) (''builds/'' @ key))"
  shows "fst (layerFromCache unmarshal s key) = (None, False)"
proof -
  from assms(1) have n: "lcache (Cache s) key = None"
    by (simp add: layerFromLocalCache_eq)
  from assms(2) show ?thesis
    by (auto simp add: layerFromCache_def layerFromLocalCache_eq n Let_def
          durable_decode_def durable_read_def split: sum.splits)
qed

lemma localCacheManifest_failure:
  "ioutil_WriteFile (disk s) (mdir (Cache s) @ key) m = (Some err, d) \<Longrightarrow>
   localCacheManifest s key m =
     s\<lparr>disk := d,
       logged := logged s @
          [error_line err ''manifest'' key ''failed to locally cache manifest'']\<rparr>"
  by (simp add: localCacheManifest_def logf_def error_line_def)

lemma cacheManifest_failure:
  "copy_result (Bucket s) m = Inl err \<or>
   \<not> isl (copy_result (Bucket s) m) \<and> close_result (Bucket s) = Inl err \<Longrightarrow>
   objects (Bucket (cacheManifest s key m)) = objects (Bucket s) \<and>
   logged (cacheManifest s key m) =
     logged (go (GoLocalCacheManifest key m) s) @
       [error_line err ''manifest'' key ''failed to cache manifest to GCS'']"
  by (auto simp add: cacheManifest_def Let_def error_line_def split: sum.splits)

lemma cacheLayer_failure:
  "copy_result (Bucket s) (marshal entry) = Inl err \<or>
   \<not> isl (copy_result (Bucket s) (marshal entry)) \<and>
   close_result (Bucket s) = Inl err \<Longrightarrow>
   objects (Bucket (cacheLayer marshal s key entry)) = objects (Bucket s) \<and>
   logged (cacheLayer marshal s key entry) =
     logged s @ [error_line err ''layer'' key ''failed to cache layer'']"
  by (auto simp add: cacheLayer_def Let_def error_line_def split: sum.splits)

lemma NewCache_error:
  "isl (fst (NewCache tmp d)) = isl (os_MkdirAll d (tmp @ ''/nixery''))"
  "isl (fst (NewCache tmp d)) \<Longrightarrow> snd (NewCache tmp d) = d"
  by (auto simp add: NewCache_def Let_def split: sum.splits)

text \<open>
  C2. The four operations have no error in their result type and return in every state.
  On the read path every failure is a miss: a local open or read error gives found =
  false locally, and after a local miss a failed probe, a failed read of the object or
  (for layers) a failed decoding gives the nil result with found = false. On the write
  path every failure is logged at error severity, as the last line the function writes:
  that of the local file write, and that of the copy or the close of the upload of a
  manifest or of a layer entry, which leaves the bucket's objects as they were.
  \<open>NewCache\<close> returns an error exactly when the directory cannot be created, and
  then leaves the disk as it was.
\<close>

theorem cache_errors_do_not_propagate:
  "((isl (os_Open (disk s) (mdir (Cache s) @ key)) \<or>
     (\<exists>f. os_Open (disk s) (mdir (Cache s) @ key) = Inr f \<and> isl (ioutil_ReadAll f))) \<longrightarrow>
      fst (manifestFromLocalCache s key) = ([], False)) \<and>
   (\<not> snd (fst (manifestFromLocalCache s key)) \<and>
    (isl (attrs_result (Bucket s) (''manifests/'' @ key)) \<or>
     isl (durable_read (Bucket s) (''manifests/'' @ key))) \<longrightarrow>
      fst (manifestFromCache s key) = ([], False)) \<and>
   (\<not> snd (fst (layerFromLocalCache s key)) \<and>
    (isl (attrs_result (Bucket s) (''builds/'' @ key)) \<or>
     isl (durable_decode unmarshal (Bucket s) (''builds/'' @ key))) \<longrightarrow>
      fst (layerFromCache unmarshal s key) = (None, False)) \<and>
   (\<forall>err d'. ioutil_WriteFile (disk s) (mdir (Cache s) @ key) m = (Some err, d') \<longrightarrow>
      localCacheManifest s key m =
        s\<lparr>disk := d',
          logged := logged s @
             [error_line err ''manifest'' key ''failed to locally cache manifest'']\<rparr>) \<and>
   (\<forall>err. copy_result (Bucket s) m = Inl err \<or>
          \<not> isl (copy_result (Bucket s) m) \<and> close_result (Bucket s) = Inl err \<longrightarrow>
      objects (Bucket (cacheManifest s key m)) = objects (Bucket s) \<and>
      logged (cacheManifest s key m) =
        logged (go (GoLocalCacheManifest key m) s) @
          [error_line err ''manifest'' key ''failed to cache manifest to GCS'']) \<and>
   (\<forall>err. copy_result (Bucket s) (marshal entry) = Inl err \<or>
          \<not> isl (copy_result (Bucket s) (marshal entry)) \<and>
          close_result (Bucket s) = Inl err \<longrightarrow>
      objects (Bucket (cacheLayer marshal s key entry)) = objects (Bucket s) \<and>
      logged (cacheLayer marshal s key entry) =
        logged s @ [error_line err ''layer'' key ''failed to cache layer'']) \<and>
   isl (fst (NewCache tmp d)) = isl (os_MkdirAll d (tmp @ ''/nixery'')) \<and>
   (isl (fst (NewCache tmp d)) \<longrightarrow> snd (NewCache tmp d) = d)"
  using local_failure_is_miss [of s key]
    manifest_durable_failure_is_miss [of s key]
    layer_durable_failure_is_miss [of s key unmarshal]
    localCacheManifest_failure [of s key m]
    cacheManifest_failure [of s m _ key]
    cacheLayer_failure [of s marshal entry _ key]
    NewCache_error [of tmp d]
  by (intro conjI impI allI) blast+


theorem cache_errors_do_not_propagate_witness:
  "isl (os_Open (disk state3) (mdir (Cache state3) @ ''denied'')) \<and>
   fst (manifestFromLocalCache state3 ''denied'') = ([], False) \<and>
   \<not> snd (fst (manifestFromLocalCache state2 ''abc'')) \<and>
   isl (durable_read (Bucket state2) ''manifests/abc'') \<and>
   fst (manifestFromCache state2 ''abc'') = ([], False) \<and>
   \<not> snd (fst (layerFromLocalCache state2 ''L1'')) \<and>
   isl (durable_decode hash_unmarshal (Bucket state2) ''builds/L1'') \<and>
   fst (layerFromCache hash_unmarshal state2 ''L1'') = (None, False) \<and>
   fst (ioutil_WriteFile (disk state_small) (mdir (Cache state_small) @ ''abc'') ''{x:1}'') =
     Some ENOSPC \<and>
   logged (localCacheManifest state_small ''abc'' ''{x:1}'') =
     [error_line ENOSPC ''manifest'' ''abc'' ''failed to locally cache manifest''] \<and>
   copy_result (Bucket state_copyfails) ''{x:1}'' = Inl ErrCopy \<and>
   logged (cacheManifest state_copyfails ''abc'' ''{x:1}'') =
     [error_line ErrCopy ''manifest'' ''abc'' ''failed to cache manifest to GCS''] \<and>
   close_result (Bucket state_closefails) = Inl ErrClose \<and>
   logged (cacheLayer hash_marshal state_closefails ''L1'' entry_L1) =
     [error_line ErrClose ''layer'' ''L1'' ''failed to cache layer''] \<and>
   isl (os_MkdirAll disk_full ''/tmp/nixery'') \<and>
   isl (fst (NewCache ''/tmp'' disk_full)) \<and>
   snd (NewCache ''/tmp'' disk_full) = disk_full"
proof -
  note inst = cache_errors_do_not_propagate
      [where unmarshal = hash_unmarshal and tmp = "''/tmp''" and d = disk_full]
  have sel: "Bucket state2 = bucket0\<lparr>objects :=
        Map.empty(''manifests/abc'' \<mapsto> BadStream, ''builds/L1'' \<mapsto> Object [])\<rparr>"
    "disk state2 = disk0" "mdir (Cache state2) = ''/tmp/nixery/''"
    "lcache (Cache state2) = Map.empty"
    "disk state3 = disk0\<lparr>files := (files disk0)
        (''/tmp/nixery/denied'' \<mapsto> Denied, ''/tmp/nixery/dir'' \<mapsto> Directory)\<rparr>"
    "mdir (Cache state3) = ''/tmp/nixery/''"
    "disk state_small = disk0\<lparr>space := Some 3\<rparr>"
    "mdir (Cache state_small) = ''/tmp/nixery/''" "logged state_small = []"
    "Bucket state_copyfails = bucket0\<lparr>wfault := CopyFails\<rparr>" "logged state_copyfails = []"
    "schedule state_copyfails = []"
    "Bucket state_closefails = bucket0\<lparr>wfault := CloseFails\<rparr>"
    "logged state_closefails = []"
    by (simp_all add: state2_def state3_def state_small_def state_copyfails_def
          state_closefails_def state0_def)
  have j: "hash_marshal entry_L1 = ''deadbeef''"
    by (simp add: hash_marshal_def entry_L1_def)
  have h1: "isl (os_Open (disk state3) (mdir (Cache state3) @ ''denied''))"
    by (simp add: os_Open_def sel disk0_def)
  have h2: "\<not> snd (fst (manifestFromLocalCache state2 ''abc''))"
    by (simp add: manifestFromLocalCache_def os_Open_def sel disk0_def)
  have h3: "isl (durable_read (Bucket state2) ''manifests/abc'')"
    by (simp add: durable_read_def newreader_result_def ioutil_ReadAll_def sel bucket0_def)
  have h4: "\<not> snd (fst (layerFromLocalCache state2 ''L1''))"
    by (simp add: layerFromLocalCache_eq sel)
  have h5: "isl (durable_decode hash_unmarshal (Bucket state2) ''builds/L1'')"
    by (simp add: durable_decode_def durable_read_def newreader_result_def ioutil_ReadAll_def
          hash_unmarshal_def sel bucket0_def)
  have h6: "ioutil_WriteFile (disk state_small) (mdir (Cache state_small) @ ''abc'') ''{x:1}'' =
      (Some ENOSPC,
       disk0\<lparr>space := Some 3,
             files := (files disk0)(''/tmp/nixery/abc'' \<mapsto> RegularFile ''{x:'')\<rparr>)"
    by (simp add: ioutil_WriteFile_def sel disk0_def)
  have h7: "copy_result (Bucket state_copyfails) ''{x:1}'' = Inl ErrCopy"
    by (simp add: copy_result_def sel)
  have h8: "\<not> isl (copy_result (Bucket state_closefails) ''deadbeef'')"
    "close_result (Bucket state_closefails) = Inl ErrClose"
    by (simp_all add: copy_result_def close_result_def sel bucket0_def)
  have h10: "isl (os_MkdirAll disk_full ''/tmp/nixery'')"
    by (simp add: os_MkdirAll_def disk_full_def)
  have g: "logged (go (GoLocalCacheManifest ''abc'' ''{x:1}'') state_copyfails) = []"
    by (simp add: go_def sel)
  from inst [where s = state3 and key = "''denied''"] h1
  have a1: "fst (manifestFromLocalCache state3 ''denied'') = ([], False)"
    by blast
  from inst [where s = state2 and key = "''abc''"] h2 h3
  have a2: "fst (manifestFromCache state2 ''abc'') = ([], False)"
    by simp
  from inst [where s = state2 and key = "''L1''"] h4 h5
  have a3: "fst (layerFromCache hash_unmarshal state2 ''L1'') = (None, False)"
    by simp
  from inst [where s = state_small and key = "''abc''" and m = "''{x:1}''"] h6
  have a4: "logged (localCacheManifest state_small ''abc'' ''{x:1}'') =
     [error_line ENOSPC ''manifest'' ''abc'' ''failed to locally cache manifest'']"
    by (simp add: sel)
  from inst [where s = state_copyfails and key = "''abc''" and m = "''{x:1}''"] h7
  have a5: "logged (cacheManifest state_copyfails ''abc'' ''{x:1}'') =
     [error_line ErrCopy ''manifest'' ''abc'' ''failed to cache manifest to GCS'']"
    by (simp add: g)
  from inst [where s = state_closefails and key = "''L1''" and marshal = hash_marshal
              and entry = entry_L1] h8
  have a6: "logged (cacheLayer hash_marshal state_closefails ''L1'' entry_L1) =
     [error_line ErrClose ''layer'' ''L1'' ''failed to cache layer'']"
    by (simp add: sel j)
  from inst [where s = state0 and key = "''L1''"] h10
  have a8: "isl (fst (NewCache ''/tmp'' disk_full))" "snd (NewCache ''/tmp'' disk_full) = disk_full"
    by simp_all
  from h6 have h6': "fst (ioutil_WriteFile (disk state_small) (mdir (Cache state_small) @ ''abc'')
                          ''{x:1}'') = Some ENOSPC"
    by simp
  from h1 a1 h2 h3 a2 h4 h5 a3 h6' a4 h7 a5 h8(2) a6 h10 a8 show ?thesis
    by blast
qed

end
